theory Spec2Isabelle
  imports Main
begin

section \<open>JavaScript values the action manipulates\<close>

text \<open>
  An exception object as the code inspects it: \<open>error.status\<close> (set on HTTP errors
  of the API client), \<open>error.message\<close>, and its rendering inside a template literal.
\<close>

record js_error =
  err_name :: string
  err_message :: string
  err_status :: "nat option"

definition new_Error :: "string \<Rightarrow> js_error" where
  "new_Error msg = \<lparr>err_name = ''Error'', err_message = msg, err_status = None\<rparr>"

definition new_TypeError :: "string \<Rightarrow> js_error" where
  "new_TypeError msg = \<lparr>err_name = ''TypeError'', err_message = msg, err_status = None\<rparr>"

text \<open>\<open>`${error}`\<close>: \<open>Error.prototype.toString\<close>.\<close>

definition error_toString :: "js_error \<Rightarrow> string" where
  "error_toString e =
     (if err_message e = [] then err_name e
      else if err_name e = [] then err_message e
      else err_name e @ '': '' @ err_message e)"

text \<open>Decimal rendering of a number inside a template literal or as an array key.\<close>

definition digit_char :: "nat \<Rightarrow> char" where
  "digit_char d = ''0123456789'' ! (d mod 10)"

function string_of_nat :: "nat \<Rightarrow> string" where
  "string_of_nat n =
     (if n < 10 then [digit_char n] else string_of_nat (n div 10) @ [digit_char n])"
  by pat_completeness auto
termination
  by (relation "measure id") auto

declare string_of_nat.simps [simp del]

text \<open>
  The repository description built by \<open>getRepo\<close> and \<open>getReposList\<close> from the
  fields of the API's answer.
\<close>

record api_repo =
  api_name :: string
  api_html_url :: string
  api_node_id :: string
  api_default_branch :: string
  api_private :: bool
  api_fork :: bool
  api_archived :: bool
  api_topics :: "string list"

record repo_details =
  repo_name :: string
  repo_url :: string
  repo_id :: string
  repo_defaultBranch :: string
  repo_private :: bool
  repo_fork :: bool
  repo_archived :: bool
  repo_topics :: "string list"

definition to_repo_details :: "api_repo \<Rightarrow> repo_details" where
  "to_repo_details d =
     \<lparr>repo_name = api_name d, repo_url = api_html_url d, repo_id = api_node_id d,
      repo_defaultBranch = api_default_branch d, repo_private = api_private d,
      repo_fork = api_fork d, repo_archived = api_archived d, repo_topics = api_topics d\<rparr>"

text \<open>
  The answer of \<open>octokit.repos.getContent\<close> is a response object
  (\<open>{status, url, headers, data}\<close>); \<open>getFile\<close> returns it whole, or \<open>false\<close>
  on a 404. \<open>content_data\<close> is the file content the answer carries.
\<close>

record content_response =
  content_status :: nat
  content_data :: string

datatype file_result = File_false | File_response content_response

text \<open>
  \<open>targetContentsBefore.toString()\<close>: \<open>false\<close> prints as \<open>false\<close>, and a plain
  object has \<open>Object.prototype.toString\<close>.
\<close>

fun file_result_toString :: "file_result \<Rightarrow> string" where
  "file_result_toString File_false = ''false''"
| "file_result_toString (File_response r) = ''[object Object]''"

text \<open>
  The answer of the head-oid query: \<open>response.repository.ref\<close> is \<open>null\<close> when the
  branch is not there, and reading \<open>.target\<close> of it throws.
\<close>

record head_response =
  head_ref_oid :: "string option"
  head_repository_id :: string

text \<open>
  \<open>fileChanges\<close> starts as \<open>{}\<close>; each key is created on its first push.
\<close>

record ('a, 'd) file_changes =
  additions :: "'a list option"
  deletions :: "'d list option"

definition no_changes :: "('a, 'd) file_changes" where
  "no_changes = \<lparr>additions = None, deletions = None\<rparr>"

section \<open>Effects: the log, the clock and the remote\<close>

text \<open>
  Every call of \<open>core.info\<close>, \<open>core.warning\<close>, \<open>core.setFailed\<close>,
  \<open>core.startGroup\<close>, \<open>core.endGroup\<close>, every \<open>sleep\<close> and every request sent
  through the API client is recorded in order. \<open>core.debug\<close> output is left out: it
  has no effect on control flow.
\<close>

datatype ('a, 'd) event =
    Info string
  | Warning string
  | SetFailed string
  | StartGroup string
  | EndGroup
  | Sleep nat
  | Call_getListOfFilesToReplicate string string string string string string
  | Net_repos_get string string
  | Net_orgs_get string
  | Net_users_getByUsername string
  | Net_paginate_listForUser string
  | Net_paginate_listForOrg string
  | Net_repos_getContent string string string string
  | Net_headOidQuery string string string
  | Net_createRef string string string
  | Net_createCommitOnBranch string string "('a, 'd) file_changes" string string
  | Net_createPullRequest string string string string

record ('w, 'e) state =
  world :: 'w
  trace :: "'e list"

text \<open>
  The API client. Each request takes the state of the remote and answers with a
  rejection (\<open>Inl\<close>) or a value, and the remote's next state.
\<close>

record ('w, 'a, 'd) octokit =
  repos_get :: "string \<Rightarrow> string \<Rightarrow> 'w \<Rightarrow> (js_error + api_repo) \<times> 'w"
  orgs_get :: "string \<Rightarrow> 'w \<Rightarrow> (js_error + unit) \<times> 'w"
  users_getByUsername :: "string \<Rightarrow> 'w \<Rightarrow> (js_error + unit) \<times> 'w"
  paginate_listForUser :: "string \<Rightarrow> 'w \<Rightarrow> (js_error + api_repo list) \<times> 'w"
  paginate_listForOrg :: "string \<Rightarrow> 'w \<Rightarrow> (js_error + api_repo list) \<times> 'w"
  repos_getContent ::
    "string \<Rightarrow> string \<Rightarrow> string \<Rightarrow> string \<Rightarrow> 'w \<Rightarrow> (js_error + content_response) \<times> 'w"
  graphql_headOid :: "string \<Rightarrow> string \<Rightarrow> string \<Rightarrow> 'w \<Rightarrow> (js_error + head_response) \<times> 'w"
  graphql_createRef :: "string \<Rightarrow> string \<Rightarrow> string \<Rightarrow> 'w \<Rightarrow> (js_error + unit) \<times> 'w"
  graphql_createCommitOnBranch ::
    "string \<Rightarrow> string \<Rightarrow> ('a, 'd) file_changes \<Rightarrow> string \<Rightarrow> string \<Rightarrow> 'w
       \<Rightarrow> (js_error + string option) \<times> 'w"
  graphql_createPullRequest ::
    "string \<Rightarrow> string \<Rightarrow> string \<Rightarrow> string \<Rightarrow> 'w \<Rightarrow> (js_error + string) \<times> 'w"

text \<open>
  An \<open>async\<close> function: it runs on the state and either throws or returns.
\<close>

type_synonym ('s, 'r) prog = "'s \<Rightarrow> (js_error + 'r) \<times> 's"

definition ret :: "'r \<Rightarrow> ('s, 'r) prog" where
  "ret x = (\<lambda>s. (Inr x, s))"

definition throw :: "js_error \<Rightarrow> ('s, 'r) prog" where
  "throw e = (\<lambda>s. (Inl e, s))"

definition andThen :: "('s, 'q) prog \<Rightarrow> ('q \<Rightarrow> ('s, 'r) prog) \<Rightarrow> ('s, 'r) prog" where
  "andThen m f = (\<lambda>s. case m s of (Inl e, s') \<Rightarrow> (Inl e, s') | (Inr x, s') \<Rightarrow> f x s')"

definition next_do :: "('s, unit) prog \<Rightarrow> ('s, 'r) prog \<Rightarrow> ('s, 'r) prog" where
  "next_do m k = andThen m (\<lambda>_. k)"

definition try_catch :: "('s, 'r) prog \<Rightarrow> (js_error \<Rightarrow> ('s, 'r) prog) \<Rightarrow> ('s, 'r) prog" where
  "try_catch m h = (\<lambda>s. case m s of (Inl e, s') \<Rightarrow> h e s' | (Inr x, s') \<Rightarrow> (Inr x, s'))"

definition emit :: "'e \<Rightarrow> (('w, 'e) state, unit) prog" where
  "emit ev = (\<lambda>s. (Inr (), s\<lparr>trace := trace s @ [ev]\<rparr>))"

definition request ::
  "'e \<Rightarrow> ('w \<Rightarrow> (js_error + 'r) \<times> 'w) \<Rightarrow> (('w, 'e) state, 'r) prog" where
  "request ev call =
     (\<lambda>s. case call (world s) of (r, w') \<Rightarrow> (r, s\<lparr>world := w', trace := trace s @ [ev]\<rparr>))"


section \<open>The API calls (\<open>lib/api-calls.js\<close>)\<close>

definition getRepo ::
  "('w, 'a, 'd) octokit \<Rightarrow> string \<Rightarrow> string
     \<Rightarrow> (('w, ('a, 'd) event) state, repo_details) prog" where
  "getRepo api owner repo =
     next_do (emit (Info (''Getting details of manually selected '' @ repo @ '' repository'')))
       (andThen (request (Net_repos_get owner repo) (repos_get api owner repo))
          (\<lambda>data. ret (to_repo_details data)))"

text \<open>
  \<open>getReposList\<close>: the organisation is looked up first; a 404 falls back to the user
  lookup, any other failure is rethrown. The listing call depends on the outcome.
\<close>

definition getReposList ::
  "('w, 'a, 'd) octokit \<Rightarrow> string
     \<Rightarrow> (('w, ('a, 'd) event) state, repo_details list) prog" where
  "getReposList api owner =
     next_do (emit (StartGroup (''Getting list of all repositories owned by '' @ owner)))
       (andThen
          (try_catch
             (next_do (request (Net_orgs_get owner) (orgs_get api owner)) (ret False))
             (\<lambda>error.
                if err_status error = Some 404 then
                  try_catch
                    (next_do (request (Net_users_getByUsername owner) (users_getByUsername api owner))
                       (ret True))
                    (\<lambda>error. throw (new_Error (''Invalid user/org: '' @ error_toString error)))
                else throw (new_Error
                  (''Failed checking if workflow runs for org or user: '' @ error_toString error))))
          (\<lambda>isUser.
             andThen
               (if isUser
                then request (Net_paginate_listForUser owner) (paginate_listForUser api owner)
                else request (Net_paginate_listForOrg owner) (paginate_listForOrg api owner))
               (\<lambda>response.
                  next_do (emit EndGroup) (ret (map to_repo_details response)))))"

definition getRefOidAndRepoId ::
  "('w, 'a, 'd) octokit \<Rightarrow> string \<Rightarrow> string \<Rightarrow> string
     \<Rightarrow> (('w, ('a, 'd) event) state, string \<times> string) prog" where
  "getRefOidAndRepoId api owner repo branch =
     (let ref = ''refs/heads/'' @ branch in
      andThen (request (Net_headOidQuery owner repo ref) (graphql_headOid api owner repo ref))
        (\<lambda>response.
           case head_ref_oid response of
             None \<Rightarrow> throw (new_TypeError ''Cannot read properties of null (reading 'target')'')
           | Some headOid \<Rightarrow> ret (headOid, head_repository_id response)))"

text \<open>
  \<open>createPr\<close>: \<open>while (retries-- > 0)\<close> from \<open>retries = 5\<close>, \<open>count\<close> counting the
  attempts. The \<open>try\<close> block holds the wait, the log line and the mutation; the
  \<open>catch\<close> rethrows every error whose message is not the rate-limit one. Leaving the
  loop returns \<open>undefined\<close> (\<open>None\<close>).
\<close>

fun createPr_loop ::
  "('w, 'a, 'd) octokit \<Rightarrow> string \<Rightarrow> string \<Rightarrow> string \<Rightarrow> string \<Rightarrow> nat \<Rightarrow> nat
     \<Rightarrow> (('w, ('a, 'd) event) state, string option) prog" where
  "createPr_loop api branchName ident commitMessage defaultBranch 0 count = ret None"
| "createPr_loop api branchName ident commitMessage defaultBranch (Suc retries) count =
     try_catch
       (next_do (emit (Info ''Waiting 5sec before PR creation''))
       (next_do (emit (Sleep 5000))
       (next_do (emit (Info (''PR creation attempt '' @ string_of_nat (count + 1))))
       (andThen
          (request (Net_createPullRequest branchName ident commitMessage defaultBranch)
             (graphql_createPullRequest api branchName ident commitMessage defaultBranch))
          (\<lambda>pullRequestUrl. ret (Some pullRequestUrl))))))
       (\<lambda>error.
          if err_message error \<noteq> ''was submitted too quickly''
          then throw (new_Error (''Unable to create a PR: '' @ error_toString error))
          else createPr_loop api branchName ident commitMessage defaultBranch retries (count + 1))"

definition createPr ::
  "('w, 'a, 'd) octokit \<Rightarrow> string \<Rightarrow> string \<Rightarrow> string \<Rightarrow> string
     \<Rightarrow> (('w, ('a, 'd) event) state, string option) prog" where
  "createPr api branchName ident commitMessage defaultBranch =
     createPr_loop api branchName ident commitMessage defaultBranch 5 0"

text \<open>
  \<open>createBranch\<close>: the head of the default branch is read outside the \<open>try\<close>; the
  \<open>createRef\<close> mutation is inside it. The result says whether the branch was there.
\<close>

definition createBranch ::
  "('w, 'a, 'd) octokit \<Rightarrow> string \<Rightarrow> string \<Rightarrow> string \<Rightarrow> string
     \<Rightarrow> (('w, ('a, 'd) event) state, bool) prog" where
  "createBranch api owner repo newBranchName defaultBranch =
     next_do
       (emit (Info (''Creating branch '' @ newBranchName @ '' in the '' @ repo @ '' repository'')))
       (andThen (getRefOidAndRepoId api owner repo defaultBranch)
          (\<lambda>(headOid, repoId).
             try_catch
               (next_do
                  (request (Net_createRef repoId (''refs/heads/'' @ newBranchName) headOid)
                     (graphql_createRef api repoId (''refs/heads/'' @ newBranchName) headOid))
                  (ret False))
               (\<lambda>error.
                  if err_status error = Some 422 then
                    next_do
                      (emit (Info (''Branch '' @ newBranchName @ '' already exists in the ''
                                     @ repo @ '' repository'')))
                      (ret True)
                  else throw (new_Error
                    (''Unable to create a branch '' @ newBranchName @ '' in the '' @ repo
                       @ '' repository: '' @ error_toString error)))))"

definition getFile ::
  "('w, 'a, 'd) octokit \<Rightarrow> string \<Rightarrow> string \<Rightarrow> string \<Rightarrow> string
     \<Rightarrow> (('w, ('a, 'd) event) state, file_result) prog" where
  "getFile api owner repo ref path =
     try_catch
       (andThen
          (request (Net_repos_getContent owner repo path ref) (repos_getContent api owner repo path ref))
          (\<lambda>response. ret (File_response response)))
       (\<lambda>error.
          if err_status error = Some 404 then ret File_false
          else throw (new_Error
            (''Unable to check if file '' @ path @ '' exists in the '' @ repo
               @ '' repository: '' @ error_toString error)))"

definition fileExists ::
  "('w, 'a, 'd) octokit \<Rightarrow> string \<Rightarrow> string \<Rightarrow> string \<Rightarrow> string
     \<Rightarrow> (('w, ('a, 'd) event) state, bool) prog" where
  "fileExists api owner repo ref path =
     andThen (getFile api owner repo ref path) (\<lambda>file. ret (file \<noteq> File_false))"

text \<open>
  \<open>commitFiles\<close>: \<open>while (tries > 0)\<close> from \<open>tries = 10\<close>. Each round reads the head
  of the branch and sends the commit; a \<open>null\<close> answer throws \<open>Response is null\<close>
  inside the \<open>try\<close>, and the \<open>catch\<close> sleeps and decrements on that message and
  rethrows on any other. Leaving the loop returns \<open>undefined\<close> (\<open>None\<close>).
\<close>

fun commitFiles_loop ::
  "('w, 'a, 'd) octokit \<Rightarrow> string \<Rightarrow> string \<Rightarrow> string \<Rightarrow> ('a, 'd) file_changes \<Rightarrow> string
     \<Rightarrow> nat \<Rightarrow> (('w, ('a, 'd) event) state, string option) prog" where
  "commitFiles_loop api owner repo branch fileChanges commitMessage 0 = ret None"
| "commitFiles_loop api owner repo branch fileChanges commitMessage (Suc tries) =
     try_catch
       (andThen (getRefOidAndRepoId api owner repo branch)
          (\<lambda>(headOid, repoId).
             andThen
               (request
                  (Net_createCommitOnBranch (owner @ ''/'' @ repo) branch fileChanges
                     commitMessage headOid)
                  (graphql_createCommitOnBranch api (owner @ ''/'' @ repo) branch fileChanges
                     commitMessage headOid))
               (\<lambda>response.
                  case response of
                    None \<Rightarrow> throw (new_Error ''Response is null'')
                  | Some url \<Rightarrow> ret (Some url))))
       (\<lambda>error.
          if err_message error = ''Response is null''
          then next_do (emit (Sleep 1000))
                 (commitFiles_loop api owner repo branch fileChanges commitMessage tries)
          else throw (new_Error
            (''Unable to commit changes to the '' @ repo @ '' repository: ''
               @ error_toString error)))"

definition commitFiles ::
  "('w, 'a, 'd) octokit \<Rightarrow> string \<Rightarrow> string \<Rightarrow> string \<Rightarrow> ('a, 'd) file_changes \<Rightarrow> string
     \<Rightarrow> (('w, ('a, 'd) event) state, string option) prog" where
  "commitFiles api owner repo branch fileChanges commitMessage =
     next_do (emit (Info (''Committing changes to the '' @ repo @ '' repository'')))
       (commitFiles_loop api owner repo branch fileChanges commitMessage 10)"


section \<open>The helpers of \<open>lib/utils.js\<close> and the inputs of a run\<close>

text \<open>
  \<open>run\<close> imports five helpers from \<open>lib/utils.js\<close>; it is modelled over any
  implementation of them: the file selection may use the API client and may throw,
  the other four are taken as plain functions. \<open>'a\<close> and \<open>'d\<close> are whatever
  \<open>encodeAdditions\<close> and \<open>encodeDeletions\<close> return.
\<close>

record files_lists =
  filesForReplication :: "string list"
  filesForRemoval :: "string list"

record ignore_options =
  reposToIgnore :: string
  topicsToInclude :: string
  excludePrivate :: bool
  excludeForked :: bool

record ('w, 'a, 'd) utils =
  getListOfFilesToReplicate ::
    "string \<Rightarrow> string \<Rightarrow> string \<Rightarrow> string \<Rightarrow> string \<Rightarrow> string \<Rightarrow> 'w
       \<Rightarrow> (js_error + files_lists) \<times> 'w"
  getListOfReposToIgnore :: "string \<Rightarrow> repo_details list \<Rightarrow> ignore_options \<Rightarrow> string list"
  getBranchName :: "string \<Rightarrow> string \<Rightarrow> string"
  encodeAdditions :: "string list \<Rightarrow> string \<Rightarrow> 'a"
  encodeDeletions :: "string list \<Rightarrow> string \<Rightarrow> 'd"

text \<open>
  What \<open>run\<close> reads from its surroundings: the trigger, the event payload (the ids
  of \<open>eventPayload.commits\<close> and \<open>eventPayload.inputs.repo_name\<close>), the environment,
  the values \<open>core.getInput\<close> returns (the empty string for an input that is not
  set), owner and repository of \<open>GITHUB_REPOSITORY\<close>, \<open>process.cwd()\<close>, and the
  files of the checkout that \<open>readFile\<close> can read, by their path below
  \<open>process.cwd()\<close>.
\<close>

record inputs =
  triggerEventName :: string
  payload_commit_ids :: "string list"
  payload_repo_name :: "string option"
  env_GITHUB_TOKEN :: string
  github_token :: string
  patterns_to_ignore :: string
  patterns_to_include :: string
  patterns_to_remove :: string
  commit_message :: string
  destination :: string
  bot_branch_name :: string
  repos_to_ignore :: string
  topics_to_include :: string
  exclude_private :: string
  exclude_forked :: string
  github_owner :: string
  github_repo :: string
  process_cwd :: string
  local_files :: "string \<rightharpoonup> string"

text \<open>
  \<open>readFile(process.cwd() + '/' + path)\<close>: a file that is not there rejects with
  the error of \<open>fs\<close>, which quotes the path it was given.
\<close>

definition readFile :: "inputs \<Rightarrow> string \<Rightarrow> ('s, string) prog" where
  "readFile inp path =
     (case local_files inp path of
        None \<Rightarrow> throw (new_Error (''ENOENT: no such file or directory, open ''
                  @ [CHR 0x27] @ process_cwd inp @ ''/'' @ path @ [CHR 0x27]))
      | Some contents \<Rightarrow> ret contents)"

section \<open>The run (\<open>run\<close> of the entry file)\<close>

subsection \<open>Step 4a: the differences between the checkout and the remote\<close>

text \<open>
  \<open>for (const path of filesToReplicate)\<close>: the remote file is fetched, the local
  one is read, the two \<open>toString()\<close> results are compared, and on a difference
  \<open>encodeAdditions(filesToReplicate, destination)\<close> is pushed on
  \<open>fileChanges["additions"]\<close>. The first argument keeps the whole list while the
  second list is the part still to visit.
\<close>

definition push_addition :: "'a \<Rightarrow> ('a, 'd) file_changes \<Rightarrow> ('a, 'd) file_changes" where
  "push_addition x fileChanges =
     fileChanges\<lparr>additions :=
       Some ((case additions fileChanges of None \<Rightarrow> [] | Some xs \<Rightarrow> xs) @ [x])\<rparr>"

definition push_deletion :: "'d \<Rightarrow> ('a, 'd) file_changes \<Rightarrow> ('a, 'd) file_changes" where
  "push_deletion x fileChanges =
     fileChanges\<lparr>deletions :=
       Some ((case deletions fileChanges of None \<Rightarrow> [] | Some xs \<Rightarrow> xs) @ [x])\<rparr>"

fun replicate_loop ::
  "('w, 'a, 'd) utils \<Rightarrow> ('w, 'a, 'd) octokit \<Rightarrow> inputs \<Rightarrow> repo_details \<Rightarrow> string list
     \<Rightarrow> string list \<Rightarrow> ('a, 'd) file_changes
     \<Rightarrow> (('w, ('a, 'd) event) state, ('a, 'd) file_changes) prog" where
  "replicate_loop u api inp repo filesToReplicate [] fileChanges = ret fileChanges"
| "replicate_loop u api inp repo filesToReplicate (path # rest) fileChanges =
     andThen (getFile api (github_owner inp) (repo_name repo) (repo_defaultBranch repo) path)
       (\<lambda>targetContentsBefore.
          andThen (readFile inp path)
            (\<lambda>sourceContents.
               replicate_loop u api inp repo filesToReplicate rest
                 (if sourceContents \<noteq> file_result_toString targetContentsBefore
                  then push_addition (encodeAdditions u filesToReplicate (destination inp))
                         fileChanges
                  else fileChanges)))"

text \<open>
  \<open>for (const path in filesToRemove)\<close>: \<open>for ... in\<close> enumerates the keys of the
  array, the indices \<open>"0"\<close>, \<open>"1"\<close>, ... as strings; over \<open>undefined\<close> it runs
  no round.
\<close>

definition array_keys :: "'x list \<Rightarrow> string list" where
  "array_keys xs = map string_of_nat [0..<length xs]"

fun remove_loop ::
  "('w, 'a, 'd) utils \<Rightarrow> ('w, 'a, 'd) octokit \<Rightarrow> inputs \<Rightarrow> repo_details \<Rightarrow> string list
     \<Rightarrow> string list \<Rightarrow> ('a, 'd) file_changes
     \<Rightarrow> (('w, ('a, 'd) event) state, ('a, 'd) file_changes) prog" where
  "remove_loop u api inp repo filesToRemove [] fileChanges = ret fileChanges"
| "remove_loop u api inp repo filesToRemove (path # rest) fileChanges =
     andThen (fileExists api (github_owner inp) (repo_name repo) (repo_defaultBranch repo) path)
       (\<lambda>exists.
          remove_loop u api inp repo filesToRemove rest
            (if exists
             then push_deletion (encodeDeletions u filesToRemove (destination inp)) fileChanges
             else fileChanges))"

text \<open>
  Both loops on a fresh \<open>fileChanges = {}\<close>. \<open>filesToReplicate\<close> and
  \<open>filesToRemove\<close> are \<open>undefined\<close> (\<open>None\<close>) when step 1 was skipped;
  \<open>for ... of\<close> over \<open>undefined\<close> throws a \<open>TypeError\<close>.
\<close>

definition diff_step ::
  "('w, 'a, 'd) utils \<Rightarrow> ('w, 'a, 'd) octokit \<Rightarrow> inputs \<Rightarrow> repo_details
     \<Rightarrow> string list option \<Rightarrow> string list option
     \<Rightarrow> (('w, ('a, 'd) event) state, ('a, 'd) file_changes) prog" where
  "diff_step u api inp repo filesToReplicate filesToRemove =
     andThen
       (case filesToReplicate of
          None \<Rightarrow> throw (new_TypeError ''filesToReplicate is not iterable'')
        | Some files \<Rightarrow> replicate_loop u api inp repo files files no_changes)
       (\<lambda>fileChanges.
          case filesToRemove of
            None \<Rightarrow> ret fileChanges
          | Some files \<Rightarrow> remove_loop u api inp repo files (array_keys files) fileChanges)"

subsection \<open>Steps 4b to 4f: branch, commit, pull request\<close>

text \<open>
  The \<open>try\<close>/\<open>catch\<close> around \<open>createPr\<close> and the three-way report after it.
  \<open>if (pullRequestUrl)\<close> holds for a non-empty string.
\<close>

definition open_pr_step ::
  "('w, 'a, 'd) octokit \<Rightarrow> inputs \<Rightarrow> repo_details \<Rightarrow> string \<Rightarrow> bool
     \<Rightarrow> (('w, ('a, 'd) event) state, unit) prog" where
  "open_pr_step api inp repo newBranchName wasBranchThereAlready =
     andThen
       (try_catch
          (createPr api newBranchName (repo_id repo) (commit_message inp) (repo_defaultBranch repo))
          (\<lambda>error.
             if wasBranchThereAlready then
               next_do
                 (emit (Info (''PR creation for '' @ repo_name repo
                    @ '' failed as the branch was there already. Insted only push was performed to existing ''
                    @ newBranchName @ '' branch'')))
                 (ret None)
             else ret None))
       (\<lambda>pullRequestUrl.
          next_do (emit EndGroup)
            (case pullRequestUrl of
               Some (c # cs) \<Rightarrow>
                 emit (Info (''Workflow finished with success and PR for '' @ repo_name repo
                   @ '' is created -> '' @ (c # cs)))
             | _ \<Rightarrow>
                 if wasBranchThereAlready then
                   emit (Info (''Workflow finished without PR creation for '' @ repo_name repo
                     @ ''. Insted push was performed to existing '' @ newBranchName @ '' branch''))
                 else
                   emit (Info (''Unable to create a PR because of timeouts. Create PR manually from the branch ''
                     @ newBranchName @ '' that was already created in the upstream''))))"

text \<open>
  Step 4c. \<open>commitUrl\<close> is assigned without a declaration, which in a script that
  is not in strict mode creates a global and does not throw. In the log line an
  \<open>undefined\<close> URL prints as \<open>undefined\<close>.
\<close>

definition commit_step ::
  "('w, 'a, 'd) octokit \<Rightarrow> inputs \<Rightarrow> repo_details \<Rightarrow> string \<Rightarrow> ('a, 'd) file_changes \<Rightarrow> bool
     \<Rightarrow> (('w, ('a, 'd) event) state, unit) prog" where
  "commit_step api inp repo newBranchName fileChanges wasBranchThereAlready =
     andThen
       (commitFiles api (github_owner inp) (repo_name repo) newBranchName fileChanges
          (commit_message inp))
       (\<lambda>commitUrl.
          next_do
            (emit (Info (''Commit was created in the '' @ repo_name repo @ '' repo -> ''
               @ (case commitUrl of None \<Rightarrow> ''undefined'' | Some url \<Rightarrow> url))))
            (open_pr_step api inp repo newBranchName wasBranchThereAlready))"

text \<open>Step 4b, and then the two steps above.\<close>

definition mutate_repo ::
  "('w, 'a, 'd) utils \<Rightarrow> ('w, 'a, 'd) octokit \<Rightarrow> inputs \<Rightarrow> string \<Rightarrow> repo_details
     \<Rightarrow> ('a, 'd) file_changes \<Rightarrow> (('w, ('a, 'd) event) state, unit) prog" where
  "mutate_repo u api inp commitId repo fileChanges =
     (let newBranchName = getBranchName u (bot_branch_name inp) commitId in
      andThen
        (createBranch api (github_owner inp) (repo_name repo) newBranchName
           (repo_defaultBranch repo))
        (\<lambda>wasBranchThereAlready.
           next_do
             (if wasBranchThereAlready
              then emit (Info (''Branch '' @ newBranchName @ '' already exists in the ''
                     @ repo_name repo @ '' repo''))
              else emit (Info (''Branch '' @ newBranchName @ '' was created in the ''
                     @ repo_name repo @ '' repo'')))
             (commit_step api inp repo newBranchName fileChanges wasBranchThereAlready)))"

subsection \<open>Step 4: one repository after the other\<close>

text \<open>The body of the inner \<open>try\<close>.\<close>

definition repo_body ::
  "('w, 'a, 'd) utils \<Rightarrow> ('w, 'a, 'd) octokit \<Rightarrow> inputs \<Rightarrow> string
     \<Rightarrow> string list option \<Rightarrow> string list option \<Rightarrow> string list \<Rightarrow> repo_details
     \<Rightarrow> (('w, ('a, 'd) event) state, unit) prog" where
  "repo_body u api inp commitId filesToReplicate filesToRemove ignoredRepositories repo =
     (if repo_name repo \<notin> set ignoredRepositories then
        next_do (emit (StartGroup (''Started updating '' @ repo_name repo @ '' repo'')))
          (andThen (diff_step u api inp repo filesToReplicate filesToRemove)
             (\<lambda>fileChanges.
                if additions fileChanges \<noteq> None \<or> deletions fileChanges \<noteq> None
                then mutate_repo u api inp commitId repo fileChanges
                else next_do
                       (emit (Info (''No changes in repo '' @ repo_name repo @ '' detected'')))
                       (emit EndGroup)))
      else ret ())"

text \<open>One round of \<open>for (const repo of reposList)\<close>: the body and its \<open>catch\<close>.\<close>

definition repo_round ::
  "('w, 'a, 'd) utils \<Rightarrow> ('w, 'a, 'd) octokit \<Rightarrow> inputs \<Rightarrow> string
     \<Rightarrow> string list option \<Rightarrow> string list option \<Rightarrow> string list \<Rightarrow> repo_details
     \<Rightarrow> (('w, ('a, 'd) event) state, unit) prog" where
  "repo_round u api inp commitId filesToReplicate filesToRemove ignoredRepositories repo =
     try_catch
       (repo_body u api inp commitId filesToReplicate filesToRemove ignoredRepositories repo)
       (\<lambda>error.
          next_do (emit EndGroup)
            (emit (Warning (''Failed replicating files for this repo: '' @ error_toString error))))"

fun repos_loop ::
  "('w, 'a, 'd) utils \<Rightarrow> ('w, 'a, 'd) octokit \<Rightarrow> inputs \<Rightarrow> string
     \<Rightarrow> string list option \<Rightarrow> string list option \<Rightarrow> string list \<Rightarrow> repo_details list
     \<Rightarrow> (('w, ('a, 'd) event) state, unit) prog" where
  "repos_loop u api inp commitId filesToReplicate filesToRemove ignoredRepositories [] = ret ()"
| "repos_loop u api inp commitId filesToReplicate filesToRemove ignoredRepositories (repo # rest) =
     next_do
       (repo_round u api inp commitId filesToReplicate filesToRemove ignoredRepositories repo)
       (repos_loop u api inp commitId filesToReplicate filesToRemove ignoredRepositories rest)"


subsection \<open>Steps 0 to 3 and the whole run\<close>

text \<open>
  \<open>process.env.GITHUB_TOKEN || core.getInput('github_token', { required: true })\<close>:
  a required input that is not supplied throws.
\<close>

definition get_gitHubKey :: "inputs \<Rightarrow> ('s, string) prog" where
  "get_gitHubKey inp =
     (if env_GITHUB_TOKEN inp \<noteq> [] then ret (env_GITHUB_TOKEN inp)
      else if github_token inp = []
           then throw (new_Error ''Input required and not supplied: github_token'')
           else ret (github_token inp))"

text \<open>
  \<open>triggerEventName === 'push' ? eventPayload.commits[0].id : ''\<close>: reading
  \<open>.id\<close> of the first element of an empty list throws.
\<close>

definition get_commitId :: "inputs \<Rightarrow> ('s, string) prog" where
  "get_commitId inp =
     (if triggerEventName inp = ''push''
      then (case payload_commit_ids inp of
              [] \<Rightarrow> throw (new_TypeError ''Cannot read properties of undefined (reading 'id')'')
            | c # cs \<Rightarrow> ret c)
      else ret [])"

definition mutually_exclusive_message :: string where
  "mutually_exclusive_message =
     ''Fields patterns_to_include and patterns_to_remove are mutually exclusive. If you want to remove files from repos then do not use patterns_to_include.''"

definition destination_ignored_message :: string where
  "destination_ignored_message =
     ''The destination field will be ignored as it doesn't make sense when removal is expected and patterns_to_remove field is used''"

definition wrong_trigger_message :: string where
  "wrong_trigger_message =
     ''This GitHub Action works only when triggered by ''
       @ [CHR 0x22] @ ''push'' @ [CHR 0x22] @ '' or '' @ [CHR 0x22] @ ''workflow_dispatch''
       @ [CHR 0x22] @ '' webhooks.''"

text \<open>
  Steps 2 to 4: the list of repositories (the one named by the dispatch, or all of
  the owner's), the names to ignore, and the loop.
\<close>

definition select_and_process ::
  "('w, 'a, 'd) utils \<Rightarrow> ('w, 'a, 'd) octokit \<Rightarrow> inputs \<Rightarrow> string
     \<Rightarrow> string list option \<Rightarrow> string list option
     \<Rightarrow> (('w, ('a, 'd) event) state, unit) prog" where
  "select_and_process u api inp commitId filesToReplicate filesToRemove =
     andThen
       (case payload_repo_name inp of
          Some (c # cs) \<Rightarrow>
            if triggerEventName inp = ''workflow_dispatch''
            then andThen (getRepo api (github_owner inp) (c # cs)) (\<lambda>r. ret [r])
            else getReposList api (github_owner inp)
        | _ \<Rightarrow> getReposList api (github_owner inp))
       (\<lambda>reposList.
          repos_loop u api inp commitId filesToReplicate filesToRemove
            (getListOfReposToIgnore u (github_repo inp) reposList
               \<lparr>reposToIgnore = repos_to_ignore inp, topicsToInclude = topics_to_include inp,
                excludePrivate = (exclude_private inp = ''true''),
                excludeForked = (exclude_forked inp = ''true'')\<rparr>)
            reposList)"

text \<open>The body of the outer \<open>try\<close>.\<close>

definition run_body ::
  "('w, 'a, 'd) utils \<Rightarrow> ('w, 'a, 'd) octokit \<Rightarrow> inputs
     \<Rightarrow> (('w, ('a, 'd) event) state, unit) prog" where
  "run_body u api inp =
     andThen (get_gitHubKey inp)
       (\<lambda>gitHubKey.
     andThen (get_commitId inp)
       (\<lambda>commitId.
          if patterns_to_remove inp \<noteq> [] \<and> patterns_to_include inp \<noteq> []
          then emit (SetFailed mutually_exclusive_message)
          else
            next_do
              (if patterns_to_remove inp \<noteq> [] \<and> destination inp \<noteq> []
               then emit (Warning destination_ignored_message)
               else ret ())
              (if patterns_to_remove inp = [] then
                 andThen
                   (request
                      (Call_getListOfFilesToReplicate commitId (github_owner inp) (github_repo inp)
                         (patterns_to_ignore inp) (patterns_to_include inp) (triggerEventName inp))
                      (getListOfFilesToReplicate u commitId (github_owner inp) (github_repo inp)
                         (patterns_to_ignore inp) (patterns_to_include inp) (triggerEventName inp)))
                   (\<lambda>filesToCheckForReplication.
                      if filesForReplication filesToCheckForReplication = []
                         \<and> filesForRemoval filesToCheckForReplication = []
                      then ret ()
                      else select_and_process u api inp commitId
                             (Some (filesForReplication filesToCheckForReplication))
                             (Some (filesForRemoval filesToCheckForReplication)))
               else select_and_process u api inp commitId None None)))"

definition run ::
  "('w, 'a, 'd) utils \<Rightarrow> ('w, 'a, 'd) octokit \<Rightarrow> inputs
     \<Rightarrow> (('w, ('a, 'd) event) state, unit) prog" where
  "run u api inp =
     next_do
       (if triggerEventName inp = ''push''
        then emit (Info ''Workflow started on push event'') else ret ())
    (next_do
       (if triggerEventName inp = ''workflow_dispatch''
        then emit (Info ''Workflow started on workflow_dispatch event'') else ret ())
       (if triggerEventName inp \<noteq> ''push'' \<and> triggerEventName inp \<noteq> ''workflow_dispatch''
        then emit (SetFailed wrong_trigger_message)
        else try_catch (run_body u api inp)
               (\<lambda>error. emit (SetFailed (''Action failed because of: '' @ error_toString error)))))"

text \<open>A run starts on a remote \<open>w\<close> with nothing recorded yet.\<close>

definition start :: "'w \<Rightarrow> ('w, 'e) state" where
  "start w = \<lparr>world = w, trace = []\<rparr>"

text \<open>What the claims distinguish among the recorded events.\<close>

fun is_network_call :: "('a, 'd) event \<Rightarrow> bool" where
  "is_network_call (Info m) = False"
| "is_network_call (Warning m) = False"
| "is_network_call (SetFailed m) = False"
| "is_network_call (StartGroup m) = False"
| "is_network_call EndGroup = False"
| "is_network_call (Sleep ms) = False"
| "is_network_call e = True"

fun is_mutation :: "('a, 'd) event \<Rightarrow> bool" where
  "is_mutation (Net_createRef repoId ref oid) = True"
| "is_mutation (Net_createCommitOnBranch n b fc m oid) = True"
| "is_mutation (Net_createPullRequest b i m d) = True"
| "is_mutation e = False"

fun is_content_fetch :: "('a, 'd) event \<Rightarrow> bool" where
  "is_content_fetch (Net_repos_getContent owner repo path ref) = True"
| "is_content_fetch e = False"

fun is_listing_call :: "('a, 'd) event \<Rightarrow> bool" where
  "is_listing_call (Net_repos_get owner repo) = True"
| "is_listing_call (Net_orgs_get owner) = True"
| "is_listing_call (Net_users_getByUsername owner) = True"
| "is_listing_call (Net_paginate_listForUser owner) = True"
| "is_listing_call (Net_paginate_listForOrg owner) = True"
| "is_listing_call e = False"

fun is_warning :: "('a, 'd) event \<Rightarrow> bool" where
  "is_warning (Warning m) = True"
| "is_warning e = False"

fun is_failure :: "('a, 'd) event \<Rightarrow> bool" where
  "is_failure (SetFailed m) = True"
| "is_failure e = False"


section \<open>A scripted remote, for evaluating runs on concrete inputs\<close>

text \<open>
  A remote without memory: the owner is an organisation with the given repositories,
  every repository holds the given files on every branch, every branch has a head,
  and the three mutations answer as scripted (the commit by repository).
\<close>

definition http_error :: "nat \<Rightarrow> string \<Rightarrow> js_error" where
  "http_error status msg = \<lparr>err_name = ''HttpError'', err_message = msg, err_status = Some status\<rparr>"

definition scripted_octokit ::
  "api_repo list \<Rightarrow> (string \<rightharpoonup> string) \<Rightarrow> (js_error + unit)
     \<Rightarrow> (string \<Rightarrow> js_error + string option) \<Rightarrow> (js_error + string)
     \<Rightarrow> (unit, 'a, 'd) octokit" where
  "scripted_octokit repos files createRef_answer commit_answer pr_answer =
     \<lparr>repos_get = (\<lambda>owner repo w.
        (case find (\<lambda>r. api_name r = repo) repos of
           None \<Rightarrow> Inl (http_error 404 ''Not Found'')
         | Some r \<Rightarrow> Inr r, w)),
      orgs_get = (\<lambda>owner w. (Inr (), w)),
      users_getByUsername = (\<lambda>owner w. (Inl (http_error 404 ''Not Found''), w)),
      paginate_listForUser = (\<lambda>owner w. (Inr [], w)),
      paginate_listForOrg = (\<lambda>owner w. (Inr repos, w)),
      repos_getContent = (\<lambda>owner repo path ref w.
        (case files path of
           None \<Rightarrow> Inl (http_error 404 ''Not Found'')
         | Some c \<Rightarrow> Inr \<lparr>content_status = 200, content_data = c\<rparr>, w)),
      graphql_headOid = (\<lambda>owner name ref w.
        (Inr \<lparr>head_ref_oid = Some ''0a1b2c'', head_repository_id = ''R_'' @ name\<rparr>, w)),
      graphql_createRef = (\<lambda>repoId ref oid w. (createRef_answer, w)),
      graphql_createCommitOnBranch = (\<lambda>nameWithOwner branch fileChanges message oid w.
        (commit_answer nameWithOwner, w)),
      graphql_createPullRequest = (\<lambda>branchName ident message base w. (pr_answer, w))\<rparr>"

text \<open>
  One implementation of the helpers of \<open>lib/utils.js\<close>, used only where a run is
  evaluated at a concrete input (the general theorems hold for every implementation):
  the file selection is given, the triggering repository is the one ignored, the
  branch is the custom name or \<open>sync/<commit id>\<close>, and the encoders return the list
  of paths they were given.
\<close>

definition sample_utils :: "files_lists \<Rightarrow> (unit, string list, string list) utils" where
  "sample_utils selection =
     \<lparr>getListOfFilesToReplicate = (\<lambda>commitId owner repo ignore include trigger w.
        (Inr selection, w)),
      getListOfReposToIgnore = (\<lambda>repo reposList options. [repo]),
      getBranchName = (\<lambda>customBranchName commitId.
        if customBranchName \<noteq> [] then customBranchName else ''sync/'' @ commitId),
      encodeAdditions = (\<lambda>files destination. files),
      encodeDeletions = (\<lambda>files destination. files)\<rparr>"

definition sample_repo :: "string \<Rightarrow> api_repo" where
  "sample_repo n =
     \<lparr>api_name = n, api_html_url = ''https://example.org/acme/'' @ n, api_node_id = ''R_'' @ n,
      api_default_branch = ''main'', api_private = False, api_fork = False,
      api_archived = False, api_topics = []\<rparr>"

definition sample_inputs :: "string \<Rightarrow> string \<Rightarrow> (string \<rightharpoonup> string) \<Rightarrow> inputs" where
  "sample_inputs include remove files =
     \<lparr>triggerEventName = ''push'', payload_commit_ids = [''123''], payload_repo_name = None,
      env_GITHUB_TOKEN = ''token'', github_token = [], patterns_to_ignore = [],
      patterns_to_include = include, patterns_to_remove = remove,
      commit_message = ''Sync files'', destination = [], bot_branch_name = [],
      repos_to_ignore = [], topics_to_include = [], exclude_private = [], exclude_forked = [],
      github_owner = ''acme'', github_repo = ''hub'',
      process_cwd = ''/home/runner/work/hub/hub'', local_files = files\<rparr>"


definition commit_ok :: "string \<Rightarrow> js_error + string option" where
  "commit_ok nameWithOwner = Inr (Some (''https://example.org/'' @ nameWithOwner @ ''/commit/1''))"

definition pr_ok :: "js_error + string" where
  "pr_ok = Inr ''https://example.org/pull/1''"

definition two_repos :: "api_repo list" where
  "two_repos = [sample_repo ''hub'', sample_repo ''spoke1'']"

definition spoke1 :: repo_details where
  "spoke1 = to_repo_details (sample_repo ''spoke1'')"

text \<open>The local and the remote \<open>README.md\<close> hold the same bytes.\<close>

definition identical_utils :: "(unit, string list, string list) utils" where
  "identical_utils = sample_utils \<lparr>filesForReplication = [''README.md''], filesForRemoval = []\<rparr>"

definition identical_octokit :: "(unit, 'a, 'd) octokit" where
  "identical_octokit =
     scripted_octokit two_repos [''README.md'' \<mapsto> ''hello''] (Inr ()) commit_ok pr_ok"

definition identical_inputs :: inputs where
  "identical_inputs = sample_inputs [] [] [''README.md'' \<mapsto> ''hello'']"

text \<open>Two replicated files; only \<open>b.txt\<close> differs from the remote.\<close>

definition one_differs_octokit :: "(unit, 'a, 'd) octokit" where
  "one_differs_octokit =
     scripted_octokit two_repos [''a.txt'' \<mapsto> ''same'', ''b.txt'' \<mapsto> ''old'']
       (Inr ()) commit_ok pr_ok"

definition one_differs_inputs :: inputs where
  "one_differs_inputs = sample_inputs [] [] [''a.txt'' \<mapsto> ''same'', ''b.txt'' \<mapsto> ''new'']"

text \<open>A replicated file the remote does not have, whose local content is \<open>false\<close>.\<close>

definition missing_remote_octokit :: "(unit, 'a, 'd) octokit" where
  "missing_remote_octokit = scripted_octokit two_repos Map.empty (Inr ()) commit_ok pr_ok"

definition missing_remote_inputs :: inputs where
  "missing_remote_inputs = sample_inputs [] [] [''flag.txt'' \<mapsto> ''false'']"

text \<open>A file to remove, \<open>legacy/old.yml\<close>, that the remote has.\<close>

definition stale_utils :: "(unit, string list, string list) utils" where
  "stale_utils = sample_utils \<lparr>filesForReplication = [], filesForRemoval = [''legacy/old.yml'']\<rparr>"

definition stale_octokit :: "(unit, 'a, 'd) octokit" where
  "stale_octokit =
     scripted_octokit two_repos [''legacy/old.yml'' \<mapsto> ''old: true''] (Inr ()) commit_ok pr_ok"

definition stale_inputs :: inputs where
  "stale_inputs = sample_inputs [] [] Map.empty"

text \<open>A changed \<open>README.md\<close>, on remotes whose mutations misbehave one at a time.\<close>

definition changed_utils :: "(unit, string list, string list) utils" where
  "changed_utils = sample_utils \<lparr>filesForReplication = [''README.md''], filesForRemoval = []\<rparr>"

definition changed_inputs :: inputs where
  "changed_inputs = sample_inputs [] [] [''README.md'' \<mapsto> ''new'']"

definition null_commit_octokit :: "(unit, 'a, 'd) octokit" where
  "null_commit_octokit =
     scripted_octokit two_repos [''README.md'' \<mapsto> ''old''] (Inr ()) (\<lambda>nameWithOwner. Inr None) pr_ok"

definition pr_failing_octokit :: "(unit, 'a, 'd) octokit" where
  "pr_failing_octokit =
     scripted_octokit two_repos [''README.md'' \<mapsto> ''old''] (Inr ()) commit_ok
       (Inl (http_error 422 ''Validation Failed''))"

definition branch_exists_octokit :: "(unit, 'a, 'd) octokit" where
  "branch_exists_octokit =
     scripted_octokit two_repos [''README.md'' \<mapsto> ''old'']
       (Inl (http_error 422 ''Reference already exists'')) commit_ok pr_ok"

definition branch_exists_pr_failing_octokit :: "(unit, 'a, 'd) octokit" where
  "branch_exists_pr_failing_octokit =
     scripted_octokit two_repos [''README.md'' \<mapsto> ''old'']
       (Inl (http_error 422 ''Reference already exists'')) commit_ok
       (Inl (http_error 422 ''Validation Failed''))"




text \<open>Removal mode, and both pattern inputs set.\<close>

definition removal_inputs :: inputs where
  "removal_inputs = sample_inputs [] ''legacy/*.yml'' Map.empty"


text \<open>Removal mode on a dispatch that names the repository \<open>spoke1\<close>.\<close>

definition removal_dispatch_inputs :: inputs where
  "removal_dispatch_inputs =
     removal_inputs\<lparr>triggerEventName := ''workflow_dispatch'', payload_commit_ids := [],
       payload_repo_name := Some ''spoke1''\<rparr>"


text \<open>A remote on which the default branch has no head to read.\<close>

definition no_head_octokit :: "(unit, 'a, 'd) octokit" where
  "no_head_octokit =
     (scripted_octokit two_repos [''README.md'' \<mapsto> ''old''] (Inr ()) commit_ok pr_ok)
       \<lparr>graphql_headOid := (\<lambda>owner name ref w.
          (Inr \<lparr>head_ref_oid = None, head_repository_id = ''R_'' @ name\<rparr>, w))\<rparr>"

text \<open>A remote on which reading the head of a branch is rejected.\<close>

definition head_rejected_octokit :: "(unit, 'a, 'd) octokit" where
  "head_rejected_octokit =
     (scripted_octokit two_repos [''README.md'' \<mapsto> ''old''] (Inr ()) commit_ok pr_ok)
       \<lparr>graphql_headOid := (\<lambda>owner name ref w. (Inl (http_error 502 ''Bad Gateway''), w))\<rparr>"

section \<open>Shapes of the recorded events\<close>

text \<open>What one round of the loop of \<open>createPr\<close> records, for the attempt numbered \<open>k\<close>.\<close>

definition pr_attempt :: "string \<Rightarrow> string \<Rightarrow> string \<Rightarrow> string \<Rightarrow> nat \<Rightarrow> ('a, 'd) event list" where
  "pr_attempt branchName ident commitMessage defaultBranch k =
     [Info ''Waiting 5sec before PR creation'', Sleep 5000,
      Info (''PR creation attempt '' @ string_of_nat k),
      Net_createPullRequest branchName ident commitMessage defaultBranch]"

text \<open>
  What one round of the loop over the repositories records when
  \<open>filesToReplicate\<close> is \<open>undefined\<close>.
\<close>

definition removal_round_events :: "string list \<Rightarrow> repo_details \<Rightarrow> ('a, 'd) event list" where
  "removal_round_events ignoredRepositories repo =
     (if repo_name repo \<in> set ignoredRepositories then []
      else [StartGroup (''Started updating '' @ repo_name repo @ '' repo''), EndGroup,
            Warning ''Failed replicating files for this repo: TypeError: filesToReplicate is not iterable''])"

text \<open>
  Removal mode after a startup that went well: the state in which step 2 begins (the
  start line, and the warning about \<open>destination\<close> when that input is set), and the
  names step 3 gets for a list of repositories.
\<close>

definition removal_start :: "inputs \<Rightarrow> 'w \<Rightarrow> ('w, ('a, 'd) event) state" where
  "removal_start inp w =
     \<lparr>world = w,
      trace = Info (''Workflow started on '' @ triggerEventName inp @ '' event'')
                # (if destination inp \<noteq> [] then [Warning destination_ignored_message] else [])\<rparr>"

definition names_to_ignore :: "('w, 'a, 'd) utils \<Rightarrow> inputs \<Rightarrow> repo_details list \<Rightarrow> string list" where
  "names_to_ignore u inp reposList =
     getListOfReposToIgnore u (github_repo inp) reposList
       \<lparr>reposToIgnore = repos_to_ignore inp, topicsToInclude = topics_to_include inp,
        excludePrivate = (exclude_private inp = ''true''),
        excludeForked = (exclude_forked inp = ''true'')\<rparr>"

text \<open>The events \<open>createBranch\<close> records up to the request it has sent.\<close>

definition head_read_events :: "string \<Rightarrow> string \<Rightarrow> string \<Rightarrow> string \<Rightarrow> ('a, 'd) event list" where
  "head_read_events owner repo newBranchName defaultBranch =
     [Info (''Creating branch '' @ newBranchName @ '' in the '' @ repo @ '' repository''),
      Net_headOidQuery owner repo (''refs/heads/'' @ defaultBranch)]"

text \<open>The report that follows a failed \<open>createPr\<close>.\<close>

definition pr_failure_report :: "repo_details \<Rightarrow> string \<Rightarrow> bool \<Rightarrow> ('a, 'd) event list" where
  "pr_failure_report repo newBranchName wasBranchThereAlready =
     (if wasBranchThereAlready
      then [Info (''PR creation for '' @ repo_name repo
              @ '' failed as the branch was there already. Insted only push was performed to existing ''
              @ newBranchName @ '' branch''),
            EndGroup,
            Info (''Workflow finished without PR creation for '' @ repo_name repo
              @ ''. Insted push was performed to existing '' @ newBranchName @ '' branch'')]
      else [EndGroup,
            Info (''Unable to create a PR because of timeouts. Create PR manually from the branch ''
              @ newBranchName @ '' that was already created in the upstream'')])"


section \<open>Running programs and evaluating runs\<close>

lemmas prog_defs = ret_def throw_def andThen_def next_do_def try_catch_def emit_def request_def

lemma string_of_nat_digit: "n < 10 \<Longrightarrow> string_of_nat n = [digit_char n]"
  by (simp add: string_of_nat.simps)

lemma createPr_unfold:
  "createPr api b i m d = createPr_loop api b i m d (Suc (Suc (Suc (Suc (Suc 0))))) 0"
  by (simp add: createPr_def eval_nat_numeral)

lemma commitFiles_loop_unfold:
  "commitFiles_loop api owner repo branch fc msg 10 =
     commitFiles_loop api owner repo branch fc msg
       (Suc (Suc (Suc (Suc (Suc (Suc (Suc (Suc (Suc (Suc 0))))))))))"
  by (simp add: eval_nat_numeral)

lemmas run_defs = readFile_def push_addition_def push_deletion_def array_keys_def diff_step_def
  open_pr_step_def commit_step_def mutate_repo_def repo_body_def repo_round_def
  get_gitHubKey_def get_commitId_def select_and_process_def run_body_def run_def start_def
  no_changes_def to_repo_details_def

lemmas fixture_defs = http_error_def scripted_octokit_def sample_utils_def sample_repo_def
  sample_inputs_def new_Error_def new_TypeError_def error_toString_def commit_ok_def pr_ok_def
  two_repos_def spoke1_def

lemmas eval_defs = prog_defs getRepo_def getReposList_def getRefOidAndRepoId_def createPr_unfold
  createBranch_def getFile_def fileExists_def commitFiles_def commitFiles_loop_unfold
  run_defs fixture_defs string_of_nat_digit digit_char_def Let_def

section \<open>The pull-request step of the API calls\<close>






section \<open>Branch creation and what follows it\<close>

lemma createBranch_cases:
  "createBranch api owner repo nb db st =
    (case graphql_headOid api owner repo (''refs/heads/'' @ db) (world st) of
       (Inl e, w1) \<Rightarrow>
         (Inl e, st\<lparr>world := w1, trace := trace st @ head_read_events owner repo nb db\<rparr>)
     | (Inr hr, w1) \<Rightarrow>
         (case head_ref_oid hr of
            None \<Rightarrow>
              (Inl (new_TypeError ''Cannot read properties of null (reading 'target')''),
               st\<lparr>world := w1, trace := trace st @ head_read_events owner repo nb db\<rparr>)
          | Some oid \<Rightarrow>
              (case graphql_createRef api (head_repository_id hr) (''refs/heads/'' @ nb) oid w1 of
                 (Inr x, w2) \<Rightarrow>
                   (Inr False, st\<lparr>world := w2, trace := trace st @ head_read_events owner repo nb db
                      @ [Net_createRef (head_repository_id hr) (''refs/heads/'' @ nb) oid]\<rparr>)
               | (Inl e, w2) \<Rightarrow>
                   if err_status e = Some 422
                   then (Inr True, st\<lparr>world := w2, trace := trace st
                      @ head_read_events owner repo nb db
                      @ [Net_createRef (head_repository_id hr) (''refs/heads/'' @ nb) oid,
                         Info (''Branch '' @ nb @ '' already exists in the '' @ repo
                                 @ '' repository'')]\<rparr>)
                   else (Inl (new_Error (''Unable to create a branch '' @ nb @ '' in the '' @ repo
                           @ '' repository: '' @ error_toString e)),
                         st\<lparr>world := w2, trace := trace st @ head_read_events owner repo nb db
                      @ [Net_createRef (head_repository_id hr) (''refs/heads/'' @ nb) oid]\<rparr>))))"
proof (cases "graphql_headOid api owner repo (''refs/heads/'' @ db) (world st)")
  case (Pair r w1)
  note head = this
  show ?thesis
  proof (cases r)
    case (Inl e)
    with head show ?thesis
      by (simp add: createBranch_def getRefOidAndRepoId_def head_read_events_def prog_defs Let_def)
  next
    case (Inr hr)
    note hr = this
    show ?thesis
    proof (cases "head_ref_oid hr")
      case None
      with head hr show ?thesis
        by (simp add: createBranch_def getRefOidAndRepoId_def head_read_events_def prog_defs Let_def)
    next
      case (Some oid)
      note oid = this
      show ?thesis
      proof (cases "graphql_createRef api (head_repository_id hr) (''refs/heads/'' @ nb) oid w1")
        case (Pair a w2)
        with head hr oid show ?thesis
          by (cases a)
             (simp_all add: createBranch_def getRefOidAndRepoId_def head_read_events_def prog_defs
                Let_def)
      qed
    qed
  qed
qed

lemma mutate_repo_after_branch:
  "mutate_repo u api inp cid repo fc st =
     (case createBranch api (github_owner inp) (repo_name repo)
             (getBranchName u (bot_branch_name inp) cid) (repo_defaultBranch repo) st of
        (Inl e, st') \<Rightarrow> (Inl e, st')
      | (Inr was, st') \<Rightarrow>
          commit_step api inp repo (getBranchName u (bot_branch_name inp) cid) fc was
            (st'\<lparr>trace := trace st' @
               [Info (''Branch '' @ getBranchName u (bot_branch_name inp) cid
                  @ (if was then '' already exists in the '' else '' was created in the '')
                  @ repo_name repo @ '' repo'')]\<rparr>))"
  by (simp add: mutate_repo_def prog_defs Let_def split: prod.splits sum.splits)

lemma repo_round_catches:
  assumes "fst (repo_body u api inp cid fr frm ign repo st) = Inl e"
  shows "repo_round u api inp cid fr frm ign repo st =
     (Inr (), (snd (repo_body u api inp cid fr frm ign repo st))
        \<lparr>trace := trace (snd (repo_body u api inp cid fr frm ign repo st)) @
           [EndGroup, Warning (''Failed replicating files for this repo: '' @ error_toString e)]\<rparr>)"
  using assms
  by (cases "repo_body u api inp cid fr frm ign repo st") (simp add: repo_round_def prog_defs)

lemma repo_round_passes:
  assumes "fst (repo_body u api inp cid fr frm ign repo st) = Inr x"
  shows "repo_round u api inp cid fr frm ign repo st =
     (Inr (), snd (repo_body u api inp cid fr frm ign repo st))"
  using assms
  by (cases "repo_body u api inp cid fr frm ign repo st") (simp add: repo_round_def prog_defs)

lemma repo_round_returns: "fst (repo_round u api inp cid fr frm ign repo st) = Inr ()"
  by (cases "fst (repo_body u api inp cid fr frm ign repo st)")
     (simp_all add: repo_round_catches repo_round_passes)

lemma repos_loop_Cons:
  "repos_loop u api inp cid fr frm ign (repo # rest) st =
     repos_loop u api inp cid fr frm ign rest (snd (repo_round u api inp cid fr frm ign repo st))"
proof (cases "repo_round u api inp cid fr frm ign repo st")
  case (Pair r st')
  moreover from Pair have "r = Inr ()"
    using repo_round_returns[of u api inp cid fr frm ign repo st] by simp
  ultimately show ?thesis by (simp add: next_do_def andThen_def)
qed



text \<open>
  C8. \<open>createBranch\<close> reads the head of the default branch and sends \<open>createRef\<close>
  for \<open>refs/heads/<new branch>\<close> at that head oid. A success returns \<open>false\<close>; a
  rejection with status 422 returns \<open>true\<close> without an error, and \<open>run\<close> goes on
  to the commit step with \<open>wasBranchThereAlready = true\<close>. Every other failure is
  thrown: a rejected head query and a branch without a head before any \<open>createRef\<close>
  is sent, any other rejection of \<open>createRef\<close> wrapped in
  \<open>Unable to create a branch\<close>. A thrown error leaves the mutation sequence before
  any commit, and ends that repository's round with a warning while the loop goes on
  with the next repository.
\<close>

theorem createBranch_already_exists:
  "createBranch api owner repo nb db st =
    (case graphql_headOid api owner repo (''refs/heads/'' @ db) (world st) of
       (Inl e, w1) \<Rightarrow>
         (Inl e, st\<lparr>world := w1, trace := trace st @ head_read_events owner repo nb db\<rparr>)
     | (Inr hr, w1) \<Rightarrow>
         (case head_ref_oid hr of
            None \<Rightarrow>
              (Inl (new_TypeError ''Cannot read properties of null (reading 'target')''),
               st\<lparr>world := w1, trace := trace st @ head_read_events owner repo nb db\<rparr>)
          | Some oid \<Rightarrow>
              (case graphql_createRef api (head_repository_id hr) (''refs/heads/'' @ nb) oid w1 of
                 (Inr x, w2) \<Rightarrow>
                   (Inr False, st\<lparr>world := w2, trace := trace st @ head_read_events owner repo nb db
                      @ [Net_createRef (head_repository_id hr) (''refs/heads/'' @ nb) oid]\<rparr>)
               | (Inl e, w2) \<Rightarrow>
                   if err_status e = Some 422
                   then (Inr True, st\<lparr>world := w2, trace := trace st
                      @ head_read_events owner repo nb db
                      @ [Net_createRef (head_repository_id hr) (''refs/heads/'' @ nb) oid,
                         Info (''Branch '' @ nb @ '' already exists in the '' @ repo
                                 @ '' repository'')]\<rparr>)
                   else (Inl (new_Error (''Unable to create a branch '' @ nb @ '' in the '' @ repo
                           @ '' repository: '' @ error_toString e)),
                         st\<lparr>world := w2, trace := trace st @ head_read_events owner repo nb db
                      @ [Net_createRef (head_repository_id hr) (''refs/heads/'' @ nb) oid]\<rparr>))))
   \<and> (\<forall>u inp cid r fc s s'.
         createBranch api (github_owner inp) (repo_name r)
           (getBranchName u (bot_branch_name inp) cid) (repo_defaultBranch r) s = (Inr True, s') \<longrightarrow>
         mutate_repo u api inp cid r fc s =
           commit_step api inp r (getBranchName u (bot_branch_name inp) cid) fc True
             (s'\<lparr>trace := trace s' @
                [Info (''Branch '' @ getBranchName u (bot_branch_name inp) cid
                   @ '' already exists in the '' @ repo_name r @ '' repo'')]\<rparr>))
   \<and> (\<forall>u inp cid r fc s s' e.
         createBranch api (github_owner inp) (repo_name r)
           (getBranchName u (bot_branch_name inp) cid) (repo_defaultBranch r) s = (Inl e, s') \<longrightarrow>
         mutate_repo u api inp cid r fc s = (Inl e, s'))
   \<and> (\<forall>u inp cid fr frm ign r rs s e.
         fst (repo_body u api inp cid fr frm ign r s) = Inl e \<longrightarrow>
         repos_loop u api inp cid fr frm ign (r # rs) s =
           repos_loop u api inp cid fr frm ign rs
             ((snd (repo_body u api inp cid fr frm ign r s))
                \<lparr>trace := trace (snd (repo_body u api inp cid fr frm ign r s)) @
                   [EndGroup,
                    Warning (''Failed replicating files for this repo: '' @ error_toString e)]\<rparr>))"
  (is "?branch \<and> ?proceeds \<and> ?fatal \<and> ?isolated")
proof -
  have branch: ?branch by (rule createBranch_cases)
  have proceeds: ?proceeds by (simp add: mutate_repo_after_branch)
  have fatal: ?fatal by (simp add: mutate_repo_after_branch)
  have isolated: ?isolated
    by (simp only: repos_loop_Cons) (simp add: repo_round_catches del: repos_loop.simps)
  from branch proceeds fatal isolated show ?thesis by blast
qed

theorem createBranch_already_exists_witness:
  "createBranch (branch_exists_octokit :: (unit, string list, string list) octokit)
       ''acme'' ''spoke1'' ''sync/123'' ''main'' (start ())
     = (Inr True, \<lparr>world = (), trace =
          [Info ''Creating branch sync/123 in the spoke1 repository'',
           Net_headOidQuery ''acme'' ''spoke1'' ''refs/heads/main'',
           Net_createRef ''R_spoke1'' ''refs/heads/sync/123'' ''0a1b2c'',
           Info ''Branch sync/123 already exists in the spoke1 repository'']\<rparr>)
   \<and> filter is_mutation (trace (snd (mutate_repo changed_utils branch_exists_octokit changed_inputs
         ''123'' spoke1 \<lparr>additions = Some [[''README.md'']], deletions = None\<rparr> (start ()))))
     = [Net_createRef ''R_spoke1'' ''refs/heads/sync/123'' ''0a1b2c'',
        Net_createCommitOnBranch ''acme/spoke1'' ''sync/123''
          \<lparr>additions = Some [[''README.md'']], deletions = None\<rparr> ''Sync files'' ''0a1b2c'',
        Net_createPullRequest ''sync/123'' ''R_spoke1'' ''Sync files'' ''main'']
   \<and> createBranch (no_head_octokit :: (unit, string list, string list) octokit)
       ''acme'' ''spoke1'' ''sync/123'' ''main'' (start ())
     = (Inl (new_TypeError ''Cannot read properties of null (reading 'target')''),
        \<lparr>world = (), trace =
          [Info ''Creating branch sync/123 in the spoke1 repository'',
           Net_headOidQuery ''acme'' ''spoke1'' ''refs/heads/main'']\<rparr>)
   \<and> createBranch (head_rejected_octokit :: (unit, string list, string list) octokit)
       ''acme'' ''spoke1'' ''sync/123'' ''main'' (start ())
     = (Inl (http_error 502 ''Bad Gateway''),
        \<lparr>world = (), trace =
          [Info ''Creating branch sync/123 in the spoke1 repository'',
           Net_headOidQuery ''acme'' ''spoke1'' ''refs/heads/main'']\<rparr>)
   \<and> repo_round changed_utils no_head_octokit changed_inputs ''123''
         (Some [''README.md'']) (Some []) [''hub''] spoke1 (start ())
     = (Inr (), \<lparr>world = (), trace =
          [StartGroup ''Started updating spoke1 repo'',
           Net_repos_getContent ''acme'' ''spoke1'' ''README.md'' ''main'',
           Info ''Creating branch sync/123 in the spoke1 repository'',
           Net_headOidQuery ''acme'' ''spoke1'' ''refs/heads/main'',
           EndGroup,
           Warning ''Failed replicating files for this repo: TypeError: Cannot read properties of null (reading 'target')'']\<rparr>)"
  using createBranch_already_exists[where
      api = "branch_exists_octokit :: (unit, string list, string list) octokit"
      and owner = "''acme''" and repo = "''spoke1''" and db = "''main''" and st = "start ()"
      and nb = "''sync/123''"]
  by (simp add: branch_exists_octokit_def no_head_octokit_def head_rejected_octokit_def
      changed_utils_def changed_inputs_def eval_defs)

section \<open>Failure isolation in the loop over the repositories\<close>



section \<open>The report after a failed pull request\<close>

lemma open_pr_step_on_failure:
  assumes "fst (createPr api nb (repo_id repo) (commit_message inp) (repo_defaultBranch repo) st)
             = Inl e"
  shows "open_pr_step api inp repo nb was st =
     (Inr (),
      (snd (createPr api nb (repo_id repo) (commit_message inp) (repo_defaultBranch repo) st))
        \<lparr>trace :=
           trace (snd (createPr api nb (repo_id repo) (commit_message inp)
                         (repo_defaultBranch repo) st))
             @ pr_failure_report repo nb was\<rparr>)"
  using assms
  by (cases "createPr api nb (repo_id repo) (commit_message inp) (repo_defaultBranch repo) st")
     (simp add: open_pr_step_def pr_failure_report_def prog_defs)

text \<open>
  C5, as the code has it. When \<open>createPr\<close> throws, the step around it returns
  normally in both cases, so the failure is not fatal to the repository. What is
  recorded depends on \<open>wasBranchThereAlready\<close>: when the branch was there, the
  informational line that the PR creation failed, \<open>endGroup\<close>, and the
  informational line that the workflow finished without a PR; when the branch was
  freshly created, \<open>endGroup\<close> and the informational line that advises to create the
  PR by hand. Neither report holds a warning.
\<close>

theorem pr_failure_is_reported_as_info:
  assumes "fst (createPr api nb (repo_id repo) (commit_message inp) (repo_defaultBranch repo) st)
             = Inl e"
  shows "open_pr_step api inp repo nb was st =
     (Inr (),
      (snd (createPr api nb (repo_id repo) (commit_message inp) (repo_defaultBranch repo) st))
        \<lparr>trace :=
           trace (snd (createPr api nb (repo_id repo) (commit_message inp)
                         (repo_defaultBranch repo) st))
             @ pr_failure_report repo nb was\<rparr>)
   \<and> filter is_warning
         (pr_failure_report repo nb was :: ('a, 'd) event list) = []"
  using open_pr_step_on_failure[OF assms] by (simp add: pr_failure_report_def)

theorem pr_failure_is_reported_as_info_witness:
  "fst (createPr (branch_exists_pr_failing_octokit :: (unit, string list, string list) octokit)
          ''sync/123'' (repo_id spoke1) (commit_message changed_inputs)
          (repo_defaultBranch spoke1) (start ()))
     = Inl (new_Error ''Unable to create a PR: HttpError: Validation Failed'')
   \<and> open_pr_step (branch_exists_pr_failing_octokit :: (unit, string list, string list) octokit)
          changed_inputs spoke1 ''sync/123'' True (start ())
     = (Inr (), \<lparr>world = (), trace =
          pr_attempt ''sync/123'' ''R_spoke1'' ''Sync files'' ''main'' 1
            @ [Info ''PR creation for spoke1 failed as the branch was there already. Insted only push was performed to existing sync/123 branch'',
               EndGroup,
               Info ''Workflow finished without PR creation for spoke1. Insted push was performed to existing sync/123 branch'']\<rparr>)"
  using pr_failure_is_reported_as_info[where
      api = "branch_exists_pr_failing_octokit :: (unit, string list, string list) octokit"
      and nb = "''sync/123''" and repo = spoke1 and inp = changed_inputs and st = "start ()"
      and was = True
      and e = "new_Error ''Unable to create a PR: HttpError: Validation Failed''"]
  by (simp add: branch_exists_pr_failing_octokit_def changed_inputs_def pr_attempt_def
      pr_failure_report_def eval_defs)

text \<open>
  C5, as the claim states it, fails on a freshly created branch: the pull request of
  \<open>spoke1\<close> is rejected with an error that is not retried, and the run records no
  warning at all; its last line is informational.
\<close>

theorem pr_failure_on_fresh_branch_counterexample:
  "fst (createPr (pr_failing_octokit :: (unit, string list, string list) octokit)
          ''sync/123'' ''R_spoke1'' ''Sync files'' ''main'' (start ()))
     = Inl (new_Error ''Unable to create a PR: HttpError: Validation Failed'')
   \<and> filter is_mutation (trace (snd (run changed_utils pr_failing_octokit changed_inputs (start ()))))
     = [Net_createRef ''R_spoke1'' ''refs/heads/sync/123'' ''0a1b2c'',
        Net_createCommitOnBranch ''acme/spoke1'' ''sync/123''
          \<lparr>additions = Some [[''README.md'']], deletions = None\<rparr> ''Sync files'' ''0a1b2c'',
        Net_createPullRequest ''sync/123'' ''R_spoke1'' ''Sync files'' ''main'']
   \<and> filter is_warning (trace (snd (run changed_utils pr_failing_octokit changed_inputs (start ()))))
     = []
   \<and> last (trace (snd (run changed_utils pr_failing_octokit changed_inputs (start ()))))
     = Info ''Unable to create a PR because of timeouts. Create PR manually from the branch sync/123 that was already created in the upstream''"
  by (simp add: pr_failing_octokit_def changed_utils_def changed_inputs_def eval_defs)


section \<open>Removal mode\<close>

lemma repo_round_undefined_files:
  "repo_round u api inp cid None None ign repo st =
     (Inr (), st\<lparr>trace := trace st @ removal_round_events ign repo\<rparr>)"
  by (simp add: repo_round_def repo_body_def diff_step_def removal_round_events_def prog_defs
      new_TypeError_def error_toString_def)

lemma repos_loop_undefined_files:
  "repos_loop u api inp cid None None ign rs st =
     (Inr (), st\<lparr>trace := trace st @ concat (map (removal_round_events ign) rs)\<rparr>)"
proof (induction rs arbitrary: st)
  case Nil
  show ?case by (simp add: ret_def)
next
  case (Cons r rs)
  show ?case
    by (simp add: next_do_def andThen_def repo_round_undefined_files Cons.IH)
qed

lemma removal_round_events_quiet:
  "e \<in> set (removal_round_events ign repo) \<Longrightarrow> \<not> is_network_call e"
  by (auto simp: removal_round_events_def split: if_splits)

lemma getRepo_events:
  "e \<in> set (trace (snd (getRepo api owner repo st))) \<Longrightarrow>
     e \<in> set (trace st) \<or> \<not> is_network_call e \<or> is_listing_call e"
  by (auto simp: getRepo_def prog_defs split: sum.splits prod.splits)

lemma getReposList_events:
  "e \<in> set (trace (snd (getReposList api owner st))) \<Longrightarrow>
     e \<in> set (trace st) \<or> \<not> is_network_call e \<or> is_listing_call e"
  by (auto simp: getReposList_def prog_defs split: sum.splits prod.splits if_splits)

lemma select_and_process_undefined_files:
  assumes e: "e \<in> set (trace (snd (select_and_process u api inp cid None None st)))"
  shows "e \<in> set (trace st) \<or> \<not> is_network_call e \<or> is_listing_call e"
proof -
  let ?listing = "(case payload_repo_name inp of
          Some (c # cs) \<Rightarrow>
            if triggerEventName inp = ''workflow_dispatch''
            then andThen (getRepo api (github_owner inp) (c # cs)) (\<lambda>r. ret [r])
            else getReposList api (github_owner inp)
        | _ \<Rightarrow> getReposList api (github_owner inp))"
  have l: "x \<in> set (trace st) \<or> \<not> is_network_call x \<or> is_listing_call x"
    if x: "x \<in> set (trace (snd (?listing st)))" for x
  proof -
    have g: "trace (snd (andThen (getRepo api owner r) (\<lambda>r. ret [r]) st))
         = trace (snd (getRepo api owner r st))" for owner r
      by (cases "getRepo api owner r st") (auto simp: andThen_def ret_def split: sum.splits)
    show ?thesis
      using x getRepo_events[of x api _ _ st] getReposList_events[of x api _ st]
      by (auto simp: g split: option.splits list.splits if_splits)
  qed
  obtain r st1 where p: "?listing st = (r, st1)" by (cases "?listing st")
  show ?thesis
  proof (cases r)
    case (Inl err)
    with p have "snd (select_and_process u api inp cid None None st) = st1"
      by (simp add: select_and_process_def andThen_def)
    with e l[of e] p show ?thesis by simp
  next
    case (Inr rs)
    with p have "trace (snd (select_and_process u api inp cid None None st))
        = trace st1 @ concat (map (removal_round_events
             (getListOfReposToIgnore u (github_repo inp) rs
               \<lparr>reposToIgnore = repos_to_ignore inp, topicsToInclude = topics_to_include inp,
                excludePrivate = (exclude_private inp = ''true''),
                excludeForked = (exclude_forked inp = ''true'')\<rparr>)) rs)"
      by (simp add: select_and_process_def andThen_def repos_loop_undefined_files)
    with e l[of e] p show ?thesis
      by (auto dest: removal_round_events_quiet)
  qed
qed

lemma run_body_removal_mode:
  assumes "patterns_to_remove inp \<noteq> []" and "patterns_to_include inp = []"
    and "get_gitHubKey inp st = (Inr k, st)" and "get_commitId inp st = (Inr cid, st)"
  shows "run_body u api inp st =
     select_and_process u api inp cid None None
       (if destination inp \<noteq> []
        then st\<lparr>trace := trace st @ [Warning destination_ignored_message]\<rparr>
        else st)"
  using assms by (simp add: run_body_def prog_defs)

lemma startup_state:
  "get_gitHubKey inp st = (r, st') \<Longrightarrow> st' = st"
  "get_commitId inp st = (r', st'') \<Longrightarrow> st'' = st"
  by (auto simp: get_gitHubKey_def get_commitId_def ret_def throw_def split: if_splits list.splits)

lemma run_body_removal_mode_events:
  assumes rem: "patterns_to_remove inp \<noteq> []" and inc: "patterns_to_include inp = []"
    and x: "x \<in> set (trace (snd (run_body u api inp st)))"
  shows "x \<in> set (trace st) \<or> \<not> is_network_call x \<or> is_listing_call x"
proof -
  obtain r1 s1 where k: "get_gitHubKey inp st = (r1, s1)" by (cases "get_gitHubKey inp st")
  obtain r2 s2 where c: "get_commitId inp st = (r2, s2)" by (cases "get_commitId inp st")
  from k c have s: "s1 = st" "s2 = st" by (auto dest: startup_state)
  show ?thesis
  proof (cases r1)
    case (Inl err)
    with k s have "snd (run_body u api inp st) = st" by (simp add: run_body_def andThen_def)
    with x show ?thesis by simp
  next
    case (Inr key)
    note key = this
    show ?thesis
    proof (cases r2)
      case (Inl err)
      with k c s key have "snd (run_body u api inp st) = st"
        by (simp add: run_body_def andThen_def)
      with x show ?thesis by simp
    next
      case (Inr cid)
      with k c s key rem inc x show ?thesis
        using run_body_removal_mode[OF rem inc, of st key cid u api]
          select_and_process_undefined_files[of x u api inp cid st]
          select_and_process_undefined_files[of x u api inp cid
            "st\<lparr>trace := trace st @ [Warning destination_ignored_message]\<rparr>"]
        by (auto split: if_splits)
    qed
  qed
qed

lemma run_removal_mode_events:
  assumes rem: "patterns_to_remove inp \<noteq> []" and inc: "patterns_to_include inp = []"
    and e: "e \<in> set (trace (snd (run u api inp (start w))))"
  shows "\<not> is_network_call e \<or> is_listing_call e"
proof -
  let ?push = "start w\<lparr>trace := trace (start w) @ [Info ''Workflow started on push event'']\<rparr>"
  let ?dispatch =
    "start w\<lparr>trace := trace (start w) @ [Info ''Workflow started on workflow_dispatch event'']\<rparr>"
  obtain r st' where b: "run_body u api inp ?push = (r, st')"
    by (cases "run_body u api inp ?push")
  obtain r2 st2 where b2: "run_body u api inp ?dispatch = (r2, st2)"
    by (cases "run_body u api inp ?dispatch")
  from e b b2 run_body_removal_mode_events[OF rem inc, of e u api ?push]
    run_body_removal_mode_events[OF rem inc, of e u api ?dispatch]
  show ?thesis
    by (cases r; cases r2) (auto simp: run_def prog_defs start_def split: if_splits)
qed

lemma run_removal_dispatch:
  assumes rem: "patterns_to_remove inp \<noteq> []" and inc: "patterns_to_include inp = []"
    and tok: "env_GITHUB_TOKEN inp \<noteq> [] \<or> github_token inp \<noteq> []"
    and trig: "triggerEventName inp = ''workflow_dispatch''"
    and name: "payload_repo_name inp = Some name" "name \<noteq> []"
  shows "run u api inp (start w) =
     (case getRepo api (github_owner inp) name (removal_start inp w) of
        (Inl e, s1) \<Rightarrow>
          (Inr (), s1\<lparr>trace := trace s1 @
             [SetFailed (''Action failed because of: '' @ error_toString e)]\<rparr>)
      | (Inr r, s1) \<Rightarrow>
          (Inr (), s1\<lparr>trace := trace s1 @ removal_round_events (names_to_ignore u inp [r]) r\<rparr>))"
proof -
  obtain c cs where n: "name = c # cs" using name(2) by (cases name) auto
  show ?thesis
    using rem inc tok trig name(1) n
    by (cases "getRepo api (github_owner inp) (c # cs) (removal_start inp w)")
       (auto simp: run_def run_body_def get_gitHubKey_def get_commitId_def select_and_process_def
          repos_loop_undefined_files repo_round_undefined_files removal_start_def names_to_ignore_def start_def prog_defs
          split: sum.splits)
qed

lemma run_removal_listing:
  assumes rem: "patterns_to_remove inp \<noteq> []" and inc: "patterns_to_include inp = []"
    and tok: "env_GITHUB_TOKEN inp \<noteq> [] \<or> github_token inp \<noteq> []"
    and trig: "triggerEventName inp = ''push'' \<and> payload_commit_ids inp \<noteq> []
         \<or> triggerEventName inp = ''workflow_dispatch''
            \<and> (payload_repo_name inp = None \<or> payload_repo_name inp = Some [])"
  shows "run u api inp (start w) =
     (case getReposList api (github_owner inp) (removal_start inp w) of
        (Inl e, s1) \<Rightarrow>
          (Inr (), s1\<lparr>trace := trace s1 @
             [SetFailed (''Action failed because of: '' @ error_toString e)]\<rparr>)
      | (Inr rs, s1) \<Rightarrow>
          (Inr (), s1\<lparr>trace := trace s1
             @ concat (map (removal_round_events (names_to_ignore u inp rs)) rs)\<rparr>))"
  using rem inc tok trig
  by (cases "getReposList api (github_owner inp) (removal_start inp w)";
      cases "payload_commit_ids inp"; cases "payload_repo_name inp")
     (auto simp: run_def run_body_def get_gitHubKey_def get_commitId_def select_and_process_def
        repos_loop_undefined_files repo_round_undefined_files removal_start_def names_to_ignore_def start_def prog_defs
        split: sum.splits list.splits)

text \<open>
  C2. With \<open>patterns_to_remove\<close> set and \<open>patterns_to_include\<close> empty, a run sends
  nothing but the calls that list the repositories: the file selection is not
  called, no file content or existence is fetched, no branch head is read, and no
  branch, commit or pull request is created. After a startup that went well (a token,
  and a dispatch or a push with a first commit) the run is pinned: it fetches the
  repository the dispatch names, or lists the owner's repositories, and when that
  succeeds it records, for every repository of that list in order, nothing if the
  repository is ignored and otherwise \<open>startGroup\<close>, \<open>endGroup\<close> and the warning
  of the \<open>TypeError\<close> thrown by the loop over the undefined \<open>filesToReplicate\<close>;
  nothing else follows and the run does not fail. The loop over the repositories
  itself, with both lists undefined, records exactly these rounds and leaves the
  remote as it was.
\<close>

theorem removal_mode_fails_every_repository:
  assumes "patterns_to_remove inp \<noteq> []" and "patterns_to_include inp = []"
  shows "(\<forall>e\<in>set (trace (snd (run u api inp (start w)))).
            \<not> is_network_call e \<or> is_listing_call e)
   \<and> (\<forall>name. (env_GITHUB_TOKEN inp \<noteq> [] \<or> github_token inp \<noteq> []) \<longrightarrow>
          triggerEventName inp = ''workflow_dispatch'' \<longrightarrow>
          payload_repo_name inp = Some name \<longrightarrow> name \<noteq> [] \<longrightarrow>
          run u api inp (start w) =
            (case getRepo api (github_owner inp) name (removal_start inp w) of
               (Inl e, s1) \<Rightarrow>
                 (Inr (), s1\<lparr>trace := trace s1 @
                    [SetFailed (''Action failed because of: '' @ error_toString e)]\<rparr>)
             | (Inr r, s1) \<Rightarrow>
                 (Inr (), s1\<lparr>trace := trace s1
                    @ removal_round_events (names_to_ignore u inp [r]) r\<rparr>)))
   \<and> ((env_GITHUB_TOKEN inp \<noteq> [] \<or> github_token inp \<noteq> []) \<longrightarrow>
        (triggerEventName inp = ''push'' \<and> payload_commit_ids inp \<noteq> []
           \<or> triggerEventName inp = ''workflow_dispatch''
              \<and> (payload_repo_name inp = None \<or> payload_repo_name inp = Some [])) \<longrightarrow>
        run u api inp (start w) =
          (case getReposList api (github_owner inp) (removal_start inp w) of
             (Inl e, s1) \<Rightarrow>
               (Inr (), s1\<lparr>trace := trace s1 @
                  [SetFailed (''Action failed because of: '' @ error_toString e)]\<rparr>)
           | (Inr rs, s1) \<Rightarrow>
               (Inr (), s1\<lparr>trace := trace s1
                  @ concat (map (removal_round_events (names_to_ignore u inp rs)) rs)\<rparr>)))
   \<and> (\<forall>st k cid. get_gitHubKey inp st = (Inr k, st) \<longrightarrow> get_commitId inp st = (Inr cid, st) \<longrightarrow>
          run_body u api inp st =
            select_and_process u api inp cid None None
              (if destination inp \<noteq> []
               then st\<lparr>trace := trace st @ [Warning destination_ignored_message]\<rparr>
               else st))
   \<and> (\<forall>cid ign rs st.
          repos_loop u api inp cid None None ign rs st =
            (Inr (), st\<lparr>trace := trace st @ concat (map (removal_round_events ign) rs)\<rparr>))"
  (is "?quiet \<and> ?dispatch \<and> ?listing \<and> ?skipped \<and> ?failed")
proof -
  have quiet: ?quiet by (intro ballI) (rule run_removal_mode_events[OF assms])
  have dispatch: ?dispatch by (intro allI impI) (rule run_removal_dispatch[OF assms])
  have listing: ?listing by (intro allI impI) (rule run_removal_listing[OF assms])
  have skipped: ?skipped by (intro allI impI) (rule run_body_removal_mode[OF assms])
  have failed: ?failed by (simp add: repos_loop_undefined_files)
  from quiet dispatch listing skipped failed show ?thesis by blast
qed

theorem removal_mode_fails_every_repository_witness:
  "patterns_to_remove removal_inputs \<noteq> [] \<and> patterns_to_include removal_inputs = []
   \<and> run stale_utils stale_octokit removal_inputs (start ())
     = (Inr (), \<lparr>world = (), trace =
          [Info ''Workflow started on push event'',
           StartGroup ''Getting list of all repositories owned by acme'',
           Net_orgs_get ''acme'', Net_paginate_listForOrg ''acme'', EndGroup,
           StartGroup ''Started updating spoke1 repo'', EndGroup,
           Warning ''Failed replicating files for this repo: TypeError: filesToReplicate is not iterable'']\<rparr>)
   \<and> patterns_to_remove removal_dispatch_inputs \<noteq> []
   \<and> patterns_to_include removal_dispatch_inputs = []
   \<and> triggerEventName removal_dispatch_inputs = ''workflow_dispatch''
   \<and> payload_repo_name removal_dispatch_inputs = Some ''spoke1''
   \<and> run stale_utils stale_octokit removal_dispatch_inputs (start ())
     = (Inr (), \<lparr>world = (), trace =
          [Info ''Workflow started on workflow_dispatch event'',
           Info ''Getting details of manually selected spoke1 repository'',
           Net_repos_get ''acme'' ''spoke1'',
           StartGroup ''Started updating spoke1 repo'', EndGroup,
           Warning ''Failed replicating files for this repo: TypeError: filesToReplicate is not iterable'']\<rparr>)"
  using removal_mode_fails_every_repository[where inp = removal_inputs and u = stale_utils
      and api = stale_octokit and w = "()"]
    removal_mode_fails_every_repository[where inp = removal_dispatch_inputs and u = stale_utils
      and api = stale_octokit and w = "()"]
  by (simp add: removal_inputs_def removal_dispatch_inputs_def stale_utils_def stale_octokit_def
      eval_defs)

section \<open>Both pattern inputs set\<close>






section \<open>The diff step on concrete repositories\<close>

text \<open>
  C1, evaluated. The remote \<open>README.md\<close> of \<open>spoke1\<close> holds the bytes of the local
  one and nothing is to be removed; still the diff step records an addition
  (whatever the encoder is), and the run creates the branch, the commit and the
  pull request. The local bytes are compared with the \<open>toString()\<close> of the whole
  response object.
\<close>

theorem identical_content_is_still_replicated:
  "local_files identical_inputs ''README.md'' = Some ''hello''
   \<and> fst (repos_getContent (identical_octokit :: (unit, 'a, 'd) octokit)
            ''acme'' ''spoke1'' ''README.md'' ''main'' ())
       = Inr \<lparr>content_status = 200, content_data = ''hello''\<rparr>
   \<and> diff_step u (identical_octokit :: (unit, 'a, 'd) octokit) identical_inputs spoke1
         (Some [''README.md'']) (Some []) (start ())
       = (Inr \<lparr>additions = Some [encodeAdditions u [''README.md''] []], deletions = None\<rparr>,
          \<lparr>world = (), trace = [Net_repos_getContent ''acme'' ''spoke1'' ''README.md'' ''main'']\<rparr>)
   \<and> filter is_mutation
         (trace (snd (run identical_utils identical_octokit identical_inputs (start ()))))
       = [Net_createRef ''R_spoke1'' ''refs/heads/sync/123'' ''0a1b2c'',
          Net_createCommitOnBranch ''acme/spoke1'' ''sync/123''
            \<lparr>additions = Some [[''README.md'']], deletions = None\<rparr> ''Sync files'' ''0a1b2c'',
          Net_createPullRequest ''sync/123'' ''R_spoke1'' ''Sync files'' ''main'']"
  by (simp add: identical_utils_def identical_octokit_def identical_inputs_def eval_defs)

text \<open>
  C3, evaluated. Of two replicated files only \<open>b.txt\<close> differs from the remote; the
  diff step pushes two entries, one per visited path, and each is the encoding of the
  whole list of files. And a file that the remote does not have is not added when
  its local content is the text \<open>false\<close>.
\<close>

theorem one_differing_file_gives_two_additions:
  "local_files one_differs_inputs ''a.txt'' = Some ''same''
   \<and> fst (repos_getContent (one_differs_octokit :: (unit, 'a, 'd) octokit)
            ''acme'' ''spoke1'' ''a.txt'' ''main'' ())
       = Inr \<lparr>content_status = 200, content_data = ''same''\<rparr>
   \<and> diff_step u (one_differs_octokit :: (unit, 'a, 'd) octokit) one_differs_inputs spoke1
         (Some [''a.txt'', ''b.txt'']) (Some []) (start ())
       = (Inr \<lparr>additions = Some [encodeAdditions u [''a.txt'', ''b.txt''] [],
                                  encodeAdditions u [''a.txt'', ''b.txt''] []],
               deletions = None\<rparr>,
          \<lparr>world = (), trace = [Net_repos_getContent ''acme'' ''spoke1'' ''a.txt'' ''main'',
                                Net_repos_getContent ''acme'' ''spoke1'' ''b.txt'' ''main'']\<rparr>)
   \<and> fst (getFile (missing_remote_octokit :: (unit, 'a, 'd) octokit)
            ''acme'' ''spoke1'' ''main'' ''flag.txt'' (start ())) = Inr File_false
   \<and> fst (diff_step u (missing_remote_octokit :: (unit, 'a, 'd) octokit) missing_remote_inputs
            spoke1 (Some [''flag.txt'']) (Some []) (start ()))
       = Inr \<lparr>additions = None, deletions = None\<rparr>"
  by (simp add: one_differs_octokit_def one_differs_inputs_def missing_remote_octokit_def
      missing_remote_inputs_def eval_defs)

text \<open>
  C4, evaluated. \<open>legacy/old.yml\<close> is to be removed and exists on the remote; the
  diff step asks the remote for the path \<open>0\<close>, the key of the array, finds nothing
  and records no deletion, and the run changes nothing in the repository.
\<close>

theorem existing_removal_target_is_not_deleted:
  "fst (fileExists (stale_octokit :: (unit, 'a, 'd) octokit)
          ''acme'' ''spoke1'' ''main'' ''legacy/old.yml'' (start ())) = Inr True
   \<and> diff_step u (stale_octokit :: (unit, 'a, 'd) octokit) stale_inputs spoke1
         (Some []) (Some [''legacy/old.yml'']) (start ())
       = (Inr \<lparr>additions = None, deletions = None\<rparr>,
          \<lparr>world = (), trace = [Net_repos_getContent ''acme'' ''spoke1'' ''0'' ''main'']\<rparr>)
   \<and> filter is_mutation (trace (snd (run stale_utils stale_octokit stale_inputs (start ())))) = []
   \<and> filter is_content_fetch (trace (snd (run stale_utils stale_octokit stale_inputs (start ()))))
       = [Net_repos_getContent ''acme'' ''spoke1'' ''0'' ''main'']"
  by (simp add: stale_utils_def stale_octokit_def stale_inputs_def eval_defs)

section \<open>The commit step on a remote that keeps answering null\<close>

lemma commitFiles_loop_step:
  assumes "getRefOidAndRepoId api owner repo branch st = (Inr (headOid, repoId), st1)"
    and "graphql_createCommitOnBranch api (owner @ ''/'' @ repo) branch fc msg headOid (world st1)
           = (answer, w2)"
  shows "commitFiles_loop api owner repo branch fc msg (Suc tries) st =
     (case answer of
        Inr (Some url) \<Rightarrow>
          (Inr (Some url), st1\<lparr>world := w2, trace := trace st1 @
             [Net_createCommitOnBranch (owner @ ''/'' @ repo) branch fc msg headOid]\<rparr>)
      | Inr None \<Rightarrow>
          commitFiles_loop api owner repo branch fc msg tries
            (st1\<lparr>world := w2, trace := trace st1 @
               [Net_createCommitOnBranch (owner @ ''/'' @ repo) branch fc msg headOid,
                Sleep 1000]\<rparr>)
      | Inl e \<Rightarrow>
          if err_message e = ''Response is null''
          then commitFiles_loop api owner repo branch fc msg tries
                 (st1\<lparr>world := w2, trace := trace st1 @
                    [Net_createCommitOnBranch (owner @ ''/'' @ repo) branch fc msg headOid,
                     Sleep 1000]\<rparr>)
          else (Inl (new_Error (''Unable to commit changes to the '' @ repo @ '' repository: ''
                  @ error_toString e)),
                st1\<lparr>world := w2, trace := trace st1 @
                  [Net_createCommitOnBranch (owner @ ''/'' @ repo) branch fc msg headOid]\<rparr>))"
  using assms
  by (cases answer) (auto simp: prog_defs new_Error_def split: option.splits)

text \<open>
  C9, evaluated. The commit mutation of \<open>spoke1\<close> answers \<open>null\<close> every time.
  \<open>commitFiles\<close> sends it ten times, sleeps one second after each, and then returns
  \<open>undefined\<close> without an error; the run records no warning and no failure, logs
  that the commit was created at \<open>undefined\<close>, and goes on to open the pull
  request.
\<close>

theorem exhausted_commit_retries_return_undefined:
  "fst (commitFiles (null_commit_octokit :: (unit, 'a, 'd) octokit)
          ''acme'' ''spoke1'' ''sync/123'' fc ''Sync files'' (start ())) = Inr None
   \<and> length (filter is_mutation (trace (snd (commitFiles
          (null_commit_octokit :: (unit, 'a, 'd) octokit)
          ''acme'' ''spoke1'' ''sync/123'' fc ''Sync files'' (start ()))))) = 10
   \<and> count_list (trace (snd (commitFiles (null_commit_octokit :: (unit, 'a, 'd) octokit)
          ''acme'' ''spoke1'' ''sync/123'' fc ''Sync files'' (start ())))) (Sleep 1000) = 10
   \<and> filter is_warning
         (trace (snd (run changed_utils null_commit_octokit changed_inputs (start ())))) = []
   \<and> filter is_failure
         (trace (snd (run changed_utils null_commit_octokit changed_inputs (start ())))) = []
   \<and> Info ''Commit was created in the spoke1 repo -> undefined''
         \<in> set (trace (snd (run changed_utils null_commit_octokit changed_inputs (start ()))))
   \<and> last (trace (snd (run changed_utils null_commit_octokit changed_inputs (start ()))))
       = Info ''Workflow finished with success and PR for spoke1 is created -> https://example.org/pull/1''"
  by (simp add: null_commit_octokit_def changed_utils_def changed_inputs_def eval_defs)

end
